theory Spec2Isabelle
  imports Main
begin

section \<open>A scoped SSH session wrapper (client.py)\<close>

text \<open>
  The module defines one class, \<open>SSHClient\<close>, that wraps the SSH library's client so
  that it can be used in a \<open>with\<close> statement. Every method is a short sequence of calls
  into the library. The embedding keeps the wrapper's control flow as it is written and
  makes the library an explicit collaborator: each library call is appended to a trace
  and answered by a transport function over a world state that the wrapper never
  inspects.
\<close>

subsection \<open>Values, errors and library calls\<close>

type_synonym bytes = string

datatype python_version = Python2 | Python3

text \<open>
  The exceptions that can leave a method: the interpreter's own (attribute access on an
  object without that attribute, an unbound name, an index out of range, a failed
  unpacking) and the ones the library raises. \<open>UsageError\<close> is the condition the
  specification names for misuse of a session; no statement of the module raises it.
\<close>

datatype error =
    AttributeError
  | NameError
  | IndexError
  | TypeError
  | AuthenticationException
  | SSHException
  | SocketError
  | IOError
  | UsageError

datatype policy = AutoAddPolicy | RejectPolicy | WarningPolicy

datatype callback = Callback nat

text \<open>The three files of an execution channel.\<close>

datatype stream = Stdin nat | Stdout nat | Stderr nat

text \<open>
  The first argument of \<open>upload\<close>: a path, or an already open local file (given by the
  bytes it still has to deliver).
\<close>

datatype local_source = LocalPath string | FileObject bytes

text \<open>The objects the wrapper handles. Library objects are handles (numbers).\<close>

datatype pyobj =
    PyNone
  | Client nat
  | SFTPClient nat
  | SFTPFile nat
  | ChannelFile stream
  | Triple pyobj pyobj pyobj
  | Bytes bytes
  | SFTPAttributes "nat option"

text \<open>
  The calls into the library, with their arguments as the wrapper passes them.
  \<open>Stream_close\<close> on an input stream is how end-of-input is signalled to the remote
  process.
\<close>

datatype call =
    SSHClient_new
  | Load_system_host_keys nat
  | Set_missing_host_key_policy nat policy
  | Connect nat string string string int
  | Close nat
  | Open_sftp nat
  | Sftp_close nat
  | Putfo nat local_source string "callback option" bool
  | Put nat local_source string "callback option" bool
  | Get nat string string
  | Sftp_file nat string string int
  | File_write nat bytes
  | File_read nat
  | File_close nat
  | Exec_command nat string
  | Stream_write stream bytes
  | Stream_flush stream
  | Stream_read stream
  | Stream_close stream

subsection \<open>State\<close>

record login =
  host :: string
  username :: string
  password :: string
  port :: int

text \<open>
  The state of a run: the two attributes of the wrapper object (\<open>self.__login_info\<close>
  and \<open>self.ssh\<close>), the calls made into the library so far, and the library's world.
\<close>

record 'w state =
  login_info :: login
  ssh :: pyobj
  trace :: "call list"
  world :: 'w

text \<open>
  The environment of a run: the interpreter version and the transport, which answers
  a call in a world with a value or an exception, and a new world.
\<close>

record 'w env =
  python :: python_version
  lib :: "call \<Rightarrow> 'w \<Rightarrow> (error + pyobj) \<times> 'w"

type_synonym ('a, 'w) action = "'w state \<Rightarrow> (error + 'a) \<times> 'w state"

definition return :: "'a \<Rightarrow> ('a, 'w) action" where
  "return x = (\<lambda>st. (Inr x, st))"

definition raise :: "error \<Rightarrow> ('a, 'w) action" where
  "raise e = (\<lambda>st. (Inl e, st))"

definition bind :: "('a, 'w) action \<Rightarrow> ('a \<Rightarrow> ('b, 'w) action) \<Rightarrow> ('b, 'w) action" where
  "bind m f = (\<lambda>st. case m st of (Inl e, st') \<Rightarrow> (Inl e, st') | (Inr x, st') \<Rightarrow> f x st')"

text \<open>
  The exit half of a \<open>with\<close> statement: the clean-up runs whether the body returned or
  raised; an exception of the clean-up replaces the body's outcome, otherwise the
  body's outcome stands (the \<open>__exit__\<close> methods involved return nothing, so an
  exception of the body is never suppressed).
\<close>

definition try_finally :: "('a, 'w) action \<Rightarrow> ('b, 'w) action \<Rightarrow> ('a, 'w) action" where
  "try_finally m cleanup =
     (\<lambda>st. case m st of (r, st') \<Rightarrow>
        (case cleanup st' of (Inl e, st'') \<Rightarrow> (Inl e, st'') | (Inr _, st'') \<Rightarrow> (r, st'')))"

text \<open>A library call: recorded in the trace, answered by the transport.\<close>

definition invoke :: "'w env \<Rightarrow> call \<Rightarrow> (pyobj, 'w) action" where
  "invoke env c =
     (\<lambda>st. case lib env c (world st) of
        (r, w') \<Rightarrow> (r, st\<lparr>trace := trace st @ [c], world := w'\<rparr>))"

text \<open>
  Method calls on an object: an object of another kind (in particular \<open>None\<close>) does not
  have the attribute.
\<close>

definition on_client :: "pyobj \<Rightarrow> (nat \<Rightarrow> ('a, 'w) action) \<Rightarrow> ('a, 'w) action" where
  "on_client obj f = (case obj of Client c \<Rightarrow> f c | _ \<Rightarrow> raise AttributeError)"

definition on_sftp :: "pyobj \<Rightarrow> (nat \<Rightarrow> ('a, 'w) action) \<Rightarrow> ('a, 'w) action" where
  "on_sftp obj f = (case obj of SFTPClient sf \<Rightarrow> f sf | _ \<Rightarrow> raise AttributeError)"

definition on_file :: "pyobj \<Rightarrow> (nat \<Rightarrow> ('a, 'w) action) \<Rightarrow> ('a, 'w) action" where
  "on_file obj f = (case obj of SFTPFile fp \<Rightarrow> f fp | _ \<Rightarrow> raise AttributeError)"

definition on_stream :: "pyobj \<Rightarrow> (stream \<Rightarrow> ('a, 'w) action) \<Rightarrow> ('a, 'w) action" where
  "on_stream obj f = (case obj of ChannelFile s \<Rightarrow> f s | _ \<Rightarrow> raise AttributeError)"

text \<open>\<open>self.ssh.m(...)\<close>: the attribute \<open>ssh\<close> of the wrapper is read from the state.\<close>

definition self_ssh :: "(nat \<Rightarrow> ('a, 'w) action) \<Rightarrow> ('a, 'w) action" where
  "self_ssh f = (\<lambda>st. on_client (ssh st) f st)"

text \<open>
  \<open>with obj as v: body\<close> for the library's closing context managers, as returned by
  \<open>open_sftp\<close> and \<open>sftp.file\<close>: entering yields the object itself, leaving calls its
  \<open>close\<close>. An answer of another kind than the library's interface promises is taken
  as an object without the attributes the statement needs.
\<close>

definition with_closing :: "'w env \<Rightarrow> pyobj \<Rightarrow> (pyobj \<Rightarrow> ('a, 'w) action) \<Rightarrow> ('a, 'w) action" where
  "with_closing env obj body =
     (case obj of
        SFTPClient sf \<Rightarrow> try_finally (body obj) (invoke env (Sftp_close sf))
      | SFTPFile fp \<Rightarrow> try_finally (body obj) (invoke env (File_close fp))
      | _ \<Rightarrow> raise AttributeError)"

text \<open>\<open>a, b, c = obj\<close>\<close>

definition unpack3 :: "pyobj \<Rightarrow> (pyobj \<Rightarrow> pyobj \<Rightarrow> pyobj \<Rightarrow> ('a, 'w) action) \<Rightarrow> ('a, 'w) action" where
  "unpack3 obj f = (case obj of Triple a b c \<Rightarrow> f a b c | _ \<Rightarrow> raise TypeError)"

text \<open>\<open>xs[0]\<close>\<close>

definition index0 :: "'a list \<Rightarrow> ('a, 'w) action" where
  "index0 xs = (case xs of [] \<Rightarrow> raise IndexError | x # _ \<Rightarrow> return x)"

text \<open>The name \<open>file\<close> is bound to a builtin type in Python 2 and unbound in Python 3.\<close>

definition builtin_file :: "python_version \<Rightarrow> (unit, 'w) action" where
  "builtin_file v = (case v of Python2 \<Rightarrow> return () | Python3 \<Rightarrow> raise NameError)"

text \<open>\<open>isinstance(x, file)\<close>\<close>

fun isinstance_file :: "local_source \<Rightarrow> bool" where
  "isinstance_file (FileObject _) = True"
| "isinstance_file (LocalPath _) = False"

text \<open>\<open>sep.join(xs)\<close>\<close>

fun join :: "string \<Rightarrow> string list \<Rightarrow> string" where
  "join sep [] = []"
| "join sep [x] = x"
| "join sep (x # y # ys) = x @ sep @ join sep (y # ys)"

definition newline :: string where
  "newline = [CHR 0x0A]"

subsection \<open>The methods of SSHClient\<close>

text \<open>
  \<^verbatim>\<open>def __init__(self, host, username, password, port=22)\<close> stores the login
  information and sets \<open>self.ssh\<close> to \<open>None\<close>.
\<close>

definition SSHClient_init :: "string \<Rightarrow> string \<Rightarrow> string \<Rightarrow> int \<Rightarrow> 'w \<Rightarrow> 'w state" where
  "SSHClient_init h u p n w =
     \<lparr>login_info = \<lparr>host = h, username = u, password = p, port = n\<rparr>,
      ssh = PyNone, trace = [], world = w\<rparr>"

definition default_port :: int where
  "default_port = 22"

text \<open>
  \<^verbatim>\<open>with self.ssh.open_sftp() as sftp:\<close>
  \<^verbatim>\<open>    if isinstance(local_path, file):\<close>
  \<^verbatim>\<open>        return sftp.putfo(local_path, remote_path, callback=callback, confirm=confirm)\<close>
  \<^verbatim>\<open>    else:\<close>
  \<^verbatim>\<open>        return sftp.put(local_path, remote_path, callback=callback, confirm=confirm)\<close>
\<close>

definition upload ::
  "'w env \<Rightarrow> local_source \<Rightarrow> string \<Rightarrow> callback option \<Rightarrow> bool \<Rightarrow> (pyobj, 'w) action" where
  "upload env local_path remote_path cb confirm =
     bind (self_ssh (\<lambda>c. invoke env (Open_sftp c))) (\<lambda>ctx.
       with_closing env ctx (\<lambda>sftp.
         bind (builtin_file (python env)) (\<lambda>_.
           if isinstance_file local_path
           then on_sftp sftp (\<lambda>sf. invoke env (Putfo sf local_path remote_path cb confirm))
           else on_sftp sftp (\<lambda>sf. invoke env (Put sf local_path remote_path cb confirm)))))"

text \<open>
  The method \<open>write\<close>:
  \<^verbatim>\<open>with self.ssh.open_sftp() as sftp:\<close>
  \<^verbatim>\<open>    with sftp.file(remote_path, mode=mode, bufsize=bufsize) as fp:\<close>
  \<^verbatim>\<open>        fp.write(data)\<close>
\<close>

definition write_data :: "'w env \<Rightarrow> bytes \<Rightarrow> string \<Rightarrow> string \<Rightarrow> int \<Rightarrow> (pyobj, 'w) action" where
  "write_data env data remote_path mode bufsize =
     bind (self_ssh (\<lambda>c. invoke env (Open_sftp c))) (\<lambda>ctx.
       with_closing env ctx (\<lambda>sftp.
         bind (on_sftp sftp (\<lambda>sf. invoke env (Sftp_file sf remote_path mode bufsize))) (\<lambda>fctx.
           with_closing env fctx (\<lambda>fp.
             bind (on_file fp (\<lambda>f. invoke env (File_write f data))) (\<lambda>_.
               return PyNone)))))"

text \<open>
  \<^verbatim>\<open>with self.ssh.open_sftp() as sftp:\<close>
  \<^verbatim>\<open>    return sftp.get(remote_path, local_path)\<close>
\<close>

definition download ::
  "'w env \<Rightarrow> string \<Rightarrow> string \<Rightarrow> callback option \<Rightarrow> bool \<Rightarrow> (pyobj, 'w) action" where
  "download env remote_path local_path cb confirm =
     bind (self_ssh (\<lambda>c. invoke env (Open_sftp c))) (\<lambda>ctx.
       with_closing env ctx (\<lambda>sftp.
         on_sftp sftp (\<lambda>sf. invoke env (Get sf remote_path local_path))))"

text \<open>
  \<^verbatim>\<open>with self.ssh.open_sftp() as sftp:\<close>
  \<^verbatim>\<open>    with sftp.file(remote_path, mode=mode, bufsize=bufsize) as fp:\<close>
  \<^verbatim>\<open>        data = fp.read()\<close>
  \<^verbatim>\<open>return data\<close>
\<close>

definition read :: "'w env \<Rightarrow> string \<Rightarrow> string \<Rightarrow> int \<Rightarrow> (pyobj, 'w) action" where
  "read env remote_path mode bufsize =
     bind (self_ssh (\<lambda>c. invoke env (Open_sftp c))) (\<lambda>ctx.
       bind (with_closing env ctx (\<lambda>sftp.
               bind (on_sftp sftp (\<lambda>sf. invoke env (Sftp_file sf remote_path mode bufsize))) (\<lambda>fctx.
                 with_closing env fctx (\<lambda>fp.
                   on_file fp (\<lambda>f. invoke env (File_read f)))))) (\<lambda>data.
         return data))"

text \<open>The default arguments of \<open>write\<close> and \<open>read\<close>.\<close>

definition default_write_mode :: string where
  "default_write_mode = ''w''"

definition default_read_mode :: string where
  "default_read_mode = ''r''"

definition default_bufsize :: int where
  "default_bufsize = - 1"

text \<open>
  \<^verbatim>\<open>_, stdin, stderr = self.ssh.exec_command(command)\<close>
  \<^verbatim>\<open>return stdin.read(), stderr.read()\<close>
\<close>

definition exec_command :: "'w env \<Rightarrow> string \<Rightarrow> (pyobj \<times> pyobj, 'w) action" where
  "exec_command env command =
     bind (self_ssh (\<lambda>c. invoke env (Exec_command c command))) (\<lambda>r.
       unpack3 r (\<lambda>_ stdin stderr.
         bind (on_stream stdin (\<lambda>s. invoke env (Stream_read s))) (\<lambda>out.
           bind (on_stream stderr (\<lambda>s. invoke env (Stream_read s))) (\<lambda>err.
             return (out, err)))))"

text \<open>
  \<^verbatim>\<open>stdin, stdout, stderr = self.ssh.exec_command(commands[0])\<close>
  \<^verbatim>\<open>stdin.write(NL.join(commands[1:]) + NL)\<close>
  \<^verbatim>\<open>stdin.write('exit' + NL)\<close>
  \<^verbatim>\<open>stdin.flush()\<close>
  \<^verbatim>\<open>return stdout.read(), stderr.read()\<close>
  where \<open>NL\<close> stands for the one-character string of a line feed. The receiver
  \<open>self.ssh.exec_command\<close> is evaluated before the argument \<open>commands[0]\<close>.
\<close>

definition exec_commands :: "'w env \<Rightarrow> string list \<Rightarrow> (pyobj \<times> pyobj, 'w) action" where
  "exec_commands env commands =
     bind (self_ssh (\<lambda>c. bind (index0 commands) (\<lambda>first. invoke env (Exec_command c first)))) (\<lambda>r.
       unpack3 r (\<lambda>stdin stdout stderr.
         bind (on_stream stdin (\<lambda>s. invoke env (Stream_write s (join newline (tl commands) @ newline)))) (\<lambda>_.
           bind (on_stream stdin (\<lambda>s. invoke env (Stream_write s (''exit'' @ newline)))) (\<lambda>_.
             bind (on_stream stdin (\<lambda>s. invoke env (Stream_flush s))) (\<lambda>_.
               bind (on_stream stdout (\<lambda>s. invoke env (Stream_read s))) (\<lambda>out.
                 bind (on_stream stderr (\<lambda>s. invoke env (Stream_read s))) (\<lambda>err.
                   return (out, err))))))))"

text \<open>\<^verbatim>\<open>def close(self): self.ssh.close()\<close>\<close>

definition close :: "'w env \<Rightarrow> (pyobj, 'w) action" where
  "close env = bind (self_ssh (\<lambda>c. invoke env (Close c))) (\<lambda>_. return PyNone)"

text \<open>
  \<^verbatim>\<open>def __enter__(self):\<close>
  \<^verbatim>\<open>    self.ssh = paramiko.SSHClient()\<close>
  \<^verbatim>\<open>    self.ssh.load_system_host_keys()\<close>
  \<^verbatim>\<open>    self.ssh.set_missing_host_key_policy(paramiko.AutoAddPolicy())\<close>
  \<^verbatim>\<open>    self.ssh.connect(host, username=..., password=..., port=...)\<close>
  \<^verbatim>\<open>    return self\<close>
  with the four arguments of \<open>connect\<close> read from \<open>self.__login_info\<close>.
\<close>

definition enter :: "'w env \<Rightarrow> (unit, 'w) action" where
  "enter env =
     bind (invoke env SSHClient_new) (\<lambda>obj.
       bind (\<lambda>st. (Inr (), st\<lparr>ssh := obj\<rparr>)) (\<lambda>_.
         bind (self_ssh (\<lambda>c. invoke env (Load_system_host_keys c))) (\<lambda>_.
           bind (self_ssh (\<lambda>c. invoke env (Set_missing_host_key_policy c AutoAddPolicy))) (\<lambda>_.
             bind (self_ssh (\<lambda>c. (\<lambda>st. invoke env
                     (Connect c (host (login_info st)) (username (login_info st))
                        (password (login_info st)) (port (login_info st))) st))) (\<lambda>_.
               return ())))))"

text \<open>\<^verbatim>\<open>def __exit__(self, exc_type, exc_val, exc_tb): self.close()\<close>\<close>

definition exit :: "'w env \<Rightarrow> (pyobj, 'w) action" where
  "exit env = bind (close env) (\<lambda>_. return PyNone)"

subsection \<open>The with statement around a block\<close>

text \<open>
  A block that uses the session: a sequence of calls of the transfer and command
  methods, and statements that raise. The first exception ends the block.
\<close>

datatype op =
    Upload local_source string "callback option" bool
  | Write bytes string string int
  | Download string string "callback option" bool
  | Read string string int
  | ExecCommand string
  | ExecCommands "string list"
  | Raise error

fun run_op :: "'w env \<Rightarrow> op \<Rightarrow> (unit, 'w) action" where
  "run_op env (Upload l r cb cf) = bind (upload env l r cb cf) (\<lambda>_. return ())"
| "run_op env (Write d r m b) = bind (write_data env d r m b) (\<lambda>_. return ())"
| "run_op env (Download r l cb cf) = bind (download env r l cb cf) (\<lambda>_. return ())"
| "run_op env (Read r m b) = bind (read env r m b) (\<lambda>_. return ())"
| "run_op env (ExecCommand c) = bind (exec_command env c) (\<lambda>_. return ())"
| "run_op env (ExecCommands cs) = bind (exec_commands env cs) (\<lambda>_. return ())"
| "run_op env (Raise e) = raise e"

fun run_block :: "'w env \<Rightarrow> op list \<Rightarrow> (unit, 'w) action" where
  "run_block env [] = return ()"
| "run_block env (x # xs) = bind (run_op env x) (\<lambda>_. run_block env xs)"

text \<open>
  \<open>with SSHClient(h, u, p, n) as ssh: block\<close>. An exception of \<open>__enter__\<close> leaves the
  statement at once; otherwise \<open>__exit__\<close> runs when the block is left, and since it
  returns nothing an exception of the block goes on to the caller.
\<close>

definition with_SSHClient ::
  "'w env \<Rightarrow> string \<Rightarrow> string \<Rightarrow> string \<Rightarrow> int \<Rightarrow> op list \<Rightarrow> 'w \<Rightarrow> (error + unit) \<times> 'w state" where
  "with_SSHClient env h u p n block w =
     bind (enter env) (\<lambda>_. try_finally (run_block env block) (exit env))
       (SSHClient_init h u p n w)"

subsection \<open>Reading a trace\<close>

fun is_connect :: "call \<Rightarrow> bool" where
  "is_connect (Connect _ _ _ _ _) = True"
| "is_connect _ = False"

fun is_close :: "call \<Rightarrow> bool" where
  "is_close (Close _) = True"
| "is_close _ = False"

fun is_transfer :: "call \<Rightarrow> bool" where
  "is_transfer (Put _ _ _ _ _) = True"
| "is_transfer (Putfo _ _ _ _ _) = True"
| "is_transfer _ = False"

fun is_end_of_input :: "call \<Rightarrow> bool" where
  "is_end_of_input (Stream_close (Stdin _)) = True"
| "is_end_of_input _ = False"

definition lifecycle :: "call \<Rightarrow> bool" where
  "lifecycle c = (is_connect c \<or> is_close c)"

text \<open>
  An action makes only calls with a property when, from every state, it leaves the
  attribute \<open>self.ssh\<close> as it is and the trace afterwards is the trace before followed
  by calls with that property.
\<close>

definition calls_only :: "(call \<Rightarrow> bool) \<Rightarrow> ('w state \<Rightarrow> 'a \<times> 'w state) \<Rightarrow> bool" where
  "calls_only P m =
     (\<forall>st. ssh (snd (m st)) = ssh st \<and>
           (\<exists>cs. trace (snd (m st)) = trace st @ cs \<and> list_all P cs))"

subsection \<open>An in-memory transport\<close>

text \<open>
  Modelled from the spec: the SSH/SFTP transport is an external library and no part of
  the repository. Section 6 of the specification lists what it supplies (password
  authenticated connections, command channels with separate output and error streams,
  an SFTP subsystem with get, put, put-from-stream and open-with-mode), and section 8
  tests the wrapper against a fake transport. This is such a fake: a server with a
  file store, a set of accepted logins and a shell, all in memory.
\<close>

record remote =
  accepts :: "login \<Rightarrow> bool"
  shell :: "string \<Rightarrow> bytes \<Rightarrow> bytes \<times> bytes"
  handles :: nat
  connected :: "nat set"
  sftp_open :: "nat set"
  files_open :: "nat \<Rightarrow> (string \<times> string) option"
  remote_files :: "string \<Rightarrow> bytes option"
  local_files :: "string \<Rightarrow> bytes option"
  channels :: "nat \<Rightarrow> (string \<times> bytes) option"

text \<open>
  Modelled from the spec: the file-open modes of section 4.3 (truncating write against
  append) and 4.5 (read).
\<close>

definition truncates :: "string \<Rightarrow> bool" where
  "truncates mode = (CHR ''w'' \<in> set mode)"

definition appends :: "string \<Rightarrow> bool" where
  "appends mode = (CHR ''a'' \<in> set mode)"

definition writable :: "string \<Rightarrow> bool" where
  "writable mode = (CHR ''w'' \<in> set mode \<or> CHR ''a'' \<in> set mode \<or> CHR ''+'' \<in> set mode)"

definition readable :: "string \<Rightarrow> bool" where
  "readable mode = (CHR ''r'' \<in> set mode \<or> CHR ''+'' \<in> set mode)"

definition store :: "string \<Rightarrow> bytes \<Rightarrow> bool \<Rightarrow> remote \<Rightarrow> (error + pyobj) \<times> remote" where
  "store path d confirm w =
     (Inr (SFTPAttributes (if confirm then Some (length d) else None)),
      w\<lparr>remote_files := (remote_files w)(path \<mapsto> d)\<rparr>)"

text \<open>
  Modelled from the spec: the answers of the fake transport. A remote file handle
  remembers its path and mode; one write appends to the file's content (which is empty
  after a truncating open), one read on a new handle delivers the whole content. The
  output streams of a channel deliver what the shell makes of the command and of the
  input written so far.
\<close>

fun transport :: "call \<Rightarrow> remote \<Rightarrow> (error + pyobj) \<times> remote" where
  "transport SSHClient_new w = (Inr (Client (handles w)), w\<lparr>handles := Suc (handles w)\<rparr>)"
| "transport (Load_system_host_keys c) w = (Inr PyNone, w)"
| "transport (Set_missing_host_key_policy c p) w = (Inr PyNone, w)"
| "transport (Connect c h u p n) w =
     (if accepts w \<lparr>host = h, username = u, password = p, port = n\<rparr>
      then (Inr PyNone, w\<lparr>connected := insert c (connected w)\<rparr>)
      else (Inl AuthenticationException, w))"
| "transport (Close c) w = (Inr PyNone, w\<lparr>connected := connected w - {c}\<rparr>)"
| "transport (Open_sftp c) w =
     (if c \<in> connected w
      then (Inr (SFTPClient (handles w)),
            w\<lparr>handles := Suc (handles w), sftp_open := insert (handles w) (sftp_open w)\<rparr>)
      else (Inl SSHException, w))"
| "transport (Sftp_close sf) w = (Inr PyNone, w\<lparr>sftp_open := sftp_open w - {sf}\<rparr>)"
| "transport (Putfo sf src rp cb confirm) w =
     (if sf \<in> sftp_open w
      then (case src of FileObject d \<Rightarrow> store rp d confirm w | LocalPath _ \<Rightarrow> (Inl AttributeError, w))
      else (Inl SSHException, w))"
| "transport (Put sf src rp cb confirm) w =
     (if sf \<in> sftp_open w
      then (case src of
              LocalPath lp \<Rightarrow>
                (case local_files w lp of None \<Rightarrow> (Inl IOError, w) | Some d \<Rightarrow> store rp d confirm w)
            | FileObject _ \<Rightarrow> (Inl TypeError, w))
      else (Inl SSHException, w))"
| "transport (Get sf rp lp) w =
     (if sf \<in> sftp_open w
      then (case remote_files w rp of
              None \<Rightarrow> (Inl IOError, w)
            | Some d \<Rightarrow> (Inr PyNone, w\<lparr>local_files := (local_files w)(lp \<mapsto> d)\<rparr>))
      else (Inl SSHException, w))"
| "transport (Sftp_file sf path mode bufsize) w =
     (if sf \<in> sftp_open w
      then (if truncates mode
            then (Inr (SFTPFile (handles w)),
                  w\<lparr>handles := Suc (handles w),
                    files_open := (files_open w)(handles w \<mapsto> (path, mode)),
                    remote_files := (remote_files w)(path \<mapsto> [])\<rparr>)
            else if appends mode
            then (Inr (SFTPFile (handles w)),
                  w\<lparr>handles := Suc (handles w),
                    files_open := (files_open w)(handles w \<mapsto> (path, mode)),
                    remote_files := (remote_files w)
                      (path \<mapsto> (case remote_files w path of None \<Rightarrow> [] | Some d \<Rightarrow> d))\<rparr>)
            else (case remote_files w path of
                    None \<Rightarrow> (Inl IOError, w)
                  | Some _ \<Rightarrow>
                      (Inr (SFTPFile (handles w)),
                       w\<lparr>handles := Suc (handles w),
                         files_open := (files_open w)(handles w \<mapsto> (path, mode))\<rparr>)))
      else (Inl SSHException, w))"
| "transport (File_write fp d) w =
     (case files_open w fp of
        None \<Rightarrow> (Inl IOError, w)
      | Some (path, mode) \<Rightarrow>
          (if writable mode
           then (case remote_files w path of
                   None \<Rightarrow> (Inl IOError, w)
                 | Some old \<Rightarrow> (Inr PyNone, w\<lparr>remote_files := (remote_files w)(path \<mapsto> old @ d)\<rparr>))
           else (Inl IOError, w)))"
| "transport (File_read fp) w =
     (case files_open w fp of
        None \<Rightarrow> (Inl IOError, w)
      | Some (path, mode) \<Rightarrow>
          (if readable mode
           then (case remote_files w path of
                   None \<Rightarrow> (Inl IOError, w)
                 | Some d \<Rightarrow> (Inr (Bytes d), w))
           else (Inl IOError, w)))"
| "transport (File_close fp) w = (Inr PyNone, w\<lparr>files_open := (files_open w)(fp := None)\<rparr>)"
| "transport (Exec_command c cmd) w =
     (if c \<in> connected w
      then (Inr (Triple (ChannelFile (Stdin (handles w))) (ChannelFile (Stdout (handles w)))
                   (ChannelFile (Stderr (handles w)))),
            w\<lparr>handles := Suc (handles w), channels := (channels w)(handles w \<mapsto> (cmd, []))\<rparr>)
      else (Inl SSHException, w))"
| "transport (Stream_write s d) w =
     (case s of
        Stdin ch \<Rightarrow>
          (case channels w ch of
             None \<Rightarrow> (Inl IOError, w)
           | Some (cmd, inp) \<Rightarrow> (Inr PyNone, w\<lparr>channels := (channels w)(ch \<mapsto> (cmd, inp @ d))\<rparr>))
      | _ \<Rightarrow> (Inl IOError, w))"
| "transport (Stream_flush s) w = (Inr PyNone, w)"
| "transport (Stream_read s) w =
     (case s of
        Stdin _ \<Rightarrow> (Inl IOError, w)
      | Stdout ch \<Rightarrow>
          (case channels w ch of
             None \<Rightarrow> (Inl IOError, w)
           | Some (cmd, inp) \<Rightarrow> (Inr (Bytes (fst (shell w cmd inp))), w))
      | Stderr ch \<Rightarrow>
          (case channels w ch of
             None \<Rightarrow> (Inl IOError, w)
           | Some (cmd, inp) \<Rightarrow> (Inr (Bytes (snd (shell w cmd inp))), w)))"
| "transport (Stream_close s) w = (Inr PyNone, w)"

definition fake :: "python_version \<Rightarrow> remote env" where
  "fake v = \<lparr>python = v, lib = transport\<rparr>"

text \<open>
  Modelled from the spec: a shell for the fake server, enough for the examples of
  section 8. A command \<open>echo x\<close> prints \<open>x\<close>; \<open>sh\<close> runs the lines of its input up to
  \<open>exit\<close>; anything else is reported on the error stream.
\<close>

fun lines :: "string \<Rightarrow> string \<Rightarrow> string list" where
  "lines acc [] = (if acc = [] then [] else [acc])"
| "lines acc (c # cs) = (if c = CHR 0x0A then acc # lines [] cs else lines (acc @ [c]) cs)"

definition run_line :: "string \<Rightarrow> bytes \<times> bytes" where
  "run_line l =
     (if take 5 l = ''echo '' then (drop 5 l @ newline, [])
      else if l = [] then ([], [])
      else ([], l @ '': not found'' @ newline))"

fun run_lines :: "string list \<Rightarrow> bytes \<times> bytes" where
  "run_lines [] = ([], [])"
| "run_lines (l # ls) =
     (if l = ''exit'' then ([], [])
      else (case run_line l of (out, err) \<Rightarrow>
              (case run_lines ls of (out', err') \<Rightarrow> (out @ out', err @ err'))))"

definition demo_shell :: "string \<Rightarrow> bytes \<Rightarrow> bytes \<times> bytes" where
  "demo_shell cmd inp = (if cmd = ''sh'' then run_lines (lines [] inp) else run_line cmd)"

definition demo_remote :: remote where
  "demo_remote =
     \<lparr>accepts = (\<lambda>l. password l = ''secret''),
      shell = demo_shell,
      handles = 0,
      connected = {},
      sftp_open = {},
      files_open = (\<lambda>_. None),
      remote_files = (\<lambda>_. None),
      local_files = [''notes.txt'' \<mapsto> ''abc''],
      channels = (\<lambda>_. None)\<rparr>"

text \<open>A session on the fake server after \<open>__enter__\<close>, with an accepted password.\<close>

definition demo_session :: "remote state" where
  "demo_session =
     snd (enter (fake Python2) (SSHClient_init ''example.org'' ''alice'' ''secret'' 22 demo_remote))"

text \<open>
  Modelled from the spec: a matching pair of modes for a round trip (section 8): the
  write mode starts the file anew, the read mode reads it and leaves it as it is. The
  default modes of \<open>write\<close> and \<open>read\<close> are such a pair.
\<close>

definition matching_modes :: "string \<Rightarrow> string \<Rightarrow> bool" where
  "matching_modes wmode rmode = (truncates wmode \<and> readable rmode \<and> \<not> truncates rmode)"

section \<open>Properties\<close>

subsection \<open>Calls made by the combinators and the methods\<close>

lemma calls_only_return: "calls_only P (return x)"
  by (simp add: calls_only_def return_def)

lemma calls_only_raise: "calls_only P (raise e)"
  by (simp add: calls_only_def raise_def)

lemma calls_only_invoke: "P c \<Longrightarrow> calls_only P (invoke env c)"
  by (simp add: calls_only_def invoke_def split: prod.split)

lemma calls_only_bind:
  assumes m: "calls_only P m" and f: "\<And>x. calls_only P (f x)"
  shows "calls_only P (bind m f)"
  unfolding calls_only_def
proof
  fix st
  obtain r st1 where r: "m st = (r, st1)" by (cases "m st")
  from m r obtain cs where 1: "ssh st1 = ssh st" "trace st1 = trace st @ cs" "list_all P cs"
    unfolding calls_only_def by (metis snd_conv)
  show "ssh (snd (bind m f st)) = ssh st \<and>
        (\<exists>cs. trace (snd (bind m f st)) = trace st @ cs \<and> list_all P cs)"
  proof (cases r)
    case (Inl e)
    with r 1 show ?thesis by (auto simp: bind_def)
  next
    case (Inr x)
    from f[of x] obtain ds where 2: "ssh (snd (f x st1)) = ssh st1"
      "trace (snd (f x st1)) = trace st1 @ ds" "list_all P ds"
      unfolding calls_only_def by blast
    have "bind m f st = f x st1" using r Inr by (simp add: bind_def)
    with 1 2 show ?thesis by auto
  qed
qed

lemma calls_only_try_finally:
  assumes m: "calls_only P m" and f: "calls_only P cleanup"
  shows "calls_only P (try_finally m cleanup)"
  unfolding calls_only_def
proof
  fix st
  obtain r st1 where r: "m st = (r, st1)" by (cases "m st")
  from m r obtain cs where 1: "ssh st1 = ssh st" "trace st1 = trace st @ cs" "list_all P cs"
    unfolding calls_only_def by (metis snd_conv)
  obtain q st2 where q: "cleanup st1 = (q, st2)" by (cases "cleanup st1")
  from f q obtain ds where 2: "ssh st2 = ssh st1" "trace st2 = trace st1 @ ds" "list_all P ds"
    unfolding calls_only_def by (metis snd_conv)
  have "snd (try_finally m cleanup st) = st2"
    using r q by (simp add: try_finally_def split: sum.split)
  with 1 2 show "ssh (snd (try_finally m cleanup st)) = ssh st \<and>
        (\<exists>cs. trace (snd (try_finally m cleanup st)) = trace st @ cs \<and> list_all P cs)"
    by auto
qed

lemma calls_only_on_client: "(\<And>c. calls_only P (f c)) \<Longrightarrow> calls_only P (on_client obj f)"
  by (cases obj) (simp_all add: on_client_def calls_only_raise)

lemma calls_only_on_sftp: "(\<And>c. calls_only P (f c)) \<Longrightarrow> calls_only P (on_sftp obj f)"
  by (cases obj) (simp_all add: on_sftp_def calls_only_raise)

lemma calls_only_on_file: "(\<And>c. calls_only P (f c)) \<Longrightarrow> calls_only P (on_file obj f)"
  by (cases obj) (simp_all add: on_file_def calls_only_raise)

lemma calls_only_on_stream: "(\<And>c. calls_only P (f c)) \<Longrightarrow> calls_only P (on_stream obj f)"
  by (cases obj) (simp_all add: on_stream_def calls_only_raise)

lemma calls_only_self_ssh: "(\<And>c. calls_only P (f c)) \<Longrightarrow> calls_only P (self_ssh f)"
  unfolding calls_only_def self_ssh_def on_client_def
  by (auto simp: raise_def split: pyobj.split)

lemma calls_only_unpack3: "(\<And>a b c. calls_only P (f a b c)) \<Longrightarrow> calls_only P (unpack3 obj f)"
  by (cases obj) (simp_all add: unpack3_def calls_only_raise)

lemma calls_only_index0: "calls_only P (index0 xs)"
  by (cases xs) (simp_all add: index0_def calls_only_raise calls_only_return)

lemma calls_only_builtin_file: "calls_only P (builtin_file v)"
  by (cases v) (simp_all add: builtin_file_def calls_only_raise calls_only_return)

lemma calls_only_with_closing:
  assumes "\<And>x. calls_only P (body x)" "\<And>n. P (Sftp_close n)" "\<And>n. P (File_close n)"
  shows "calls_only P (with_closing env obj body)"
  using assms
  by (cases obj) (simp_all add: with_closing_def calls_only_raise calls_only_try_finally calls_only_invoke)

lemmas calls_only_intros =
  calls_only_return calls_only_raise calls_only_invoke calls_only_bind calls_only_try_finally
  calls_only_on_client calls_only_on_sftp calls_only_on_file calls_only_on_stream
  calls_only_self_ssh calls_only_unpack3 calls_only_index0 calls_only_builtin_file
  calls_only_with_closing

lemma upload_calls: "calls_only (\<lambda>c. \<not> lifecycle c) (upload env l r cb cf)"
  unfolding upload_def
  by (intro calls_only_intros) (auto simp: lifecycle_def intro!: calls_only_intros)

lemma write_data_calls: "calls_only (\<lambda>c. \<not> lifecycle c) (write_data env d r m b)"
  unfolding write_data_def
  by (intro calls_only_intros) (auto simp: lifecycle_def intro!: calls_only_intros)

lemma download_calls: "calls_only (\<lambda>c. \<not> lifecycle c) (download env r l cb cf)"
  unfolding download_def
  by (intro calls_only_intros) (auto simp: lifecycle_def intro!: calls_only_intros)

lemma read_calls: "calls_only (\<lambda>c. \<not> lifecycle c) (read env r m b)"
  unfolding read_def
  by (intro calls_only_intros) (auto simp: lifecycle_def intro!: calls_only_intros)

lemma exec_command_calls: "calls_only (\<lambda>c. \<not> lifecycle c) (exec_command env c)"
  unfolding exec_command_def
  by (intro calls_only_intros) (auto simp: lifecycle_def intro!: calls_only_intros)

lemma exec_commands_calls: "calls_only (\<lambda>c. \<not> lifecycle c) (exec_commands env cs)"
  unfolding exec_commands_def
  by (intro calls_only_intros) (auto simp: lifecycle_def intro!: calls_only_intros)

lemma run_op_calls: "calls_only (\<lambda>c. \<not> lifecycle c) (run_op env x)"
  by (cases x)
     (simp_all add: calls_only_bind calls_only_return calls_only_raise upload_calls
        write_data_calls download_calls read_calls exec_command_calls exec_commands_calls)

lemma run_block_calls: "calls_only (\<lambda>c. \<not> lifecycle c) (run_block env xs)"
  by (induction xs) (simp_all add: calls_only_bind calls_only_return run_op_calls)

subsection \<open>Running the fake server\<close>

lemmas run_defs = bind_def return_def raise_def try_finally_def invoke_def on_client_def
  on_sftp_def on_file_def on_stream_def self_ssh_def with_closing_def unpack3_def index0_def
  builtin_file_def

lemma demo_session_eq:
  "demo_session =
     \<lparr>login_info = \<lparr>host = ''example.org'', username = ''alice'', password = ''secret'', port = 22\<rparr>,
      ssh = Client 0,
      trace = [SSHClient_new, Load_system_host_keys 0, Set_missing_host_key_policy 0 AutoAddPolicy,
               Connect 0 ''example.org'' ''alice'' ''secret'' 22],
      world = demo_remote\<lparr>handles := 1, connected := {0}\<rparr>\<rparr>"
  by (simp add: demo_session_def enter_def SSHClient_init_def fake_def run_defs demo_remote_def)

lemma demo_session_ssh: "ssh demo_session = Client 0"
  by (simp add: demo_session_eq)

lemma demo_session_world: "world demo_session = demo_remote\<lparr>handles := 1, connected := {0}\<rparr>"
  by (simp add: demo_session_eq)

lemma demo_session_trace: "trace demo_session = [SSHClient_new, Load_system_host_keys 0, Set_missing_host_key_policy 0 AutoAddPolicy,
               Connect 0 ''example.org'' ''alice'' ''secret'' 22]"
  by (simp add: demo_session_eq)

lemma lib_fake: "lib (fake v) = transport"
  by (simp add: fake_def)

lemma python_fake: "python (fake v) = v"
  by (simp add: fake_def)

subsection \<open>Entering and leaving the scope\<close>

lemma enter_succeeds:
  assumes "lib env SSHClient_new w = (Inr (Client c), w1)"
    and "lib env (Load_system_host_keys c) w1 = (Inr x, w2)"
    and "lib env (Set_missing_host_key_policy c AutoAddPolicy) w2 = (Inr y, w3)"
    and "lib env (Connect c h u p n) w3 = (r, w4)"
  shows "enter env (SSHClient_init h u p n w) =
           (case r of Inl e \<Rightarrow> Inl e | Inr _ \<Rightarrow> Inr (),
            \<lparr>login_info = \<lparr>host = h, username = u, password = p, port = n\<rparr>,
             ssh = Client c,
             trace = [SSHClient_new, Load_system_host_keys c,
                      Set_missing_host_key_policy c AutoAddPolicy, Connect c h u p n],
             world = w4\<rparr>)"
  using assms by (cases r) (simp_all add: enter_def SSHClient_init_def run_defs)

lemma exit_closes:
  assumes "ssh st = Client c"
  shows "trace (snd (exit env st)) = trace st @ [Close c]"
  using assms by (simp add: exit_def close_def run_defs split: prod.split sum.split)

lemma bind_raise: "bind (raise e) f = raise e"
  by (simp add: bind_def raise_def)

lemma bind_return: "bind (return x) f = f x"
  by (simp add: bind_def return_def)

lemma first_call:
  assumes c: "ssh st = Client c" and f: "\<And>x. calls_only (\<lambda>_. True) (f x)"
  shows "\<exists>cs. trace (snd (bind (self_ssh (\<lambda>c. invoke env (k c))) f st)) = trace st @ k c # cs"
proof -
  obtain r st1 where i: "invoke env (k c) st = (r, st1)"
    by (cases "invoke env (k c) st")
  then have t1: "trace st1 = trace st @ [k c]"
    by (auto simp: invoke_def split: prod.splits)
  have s: "self_ssh (\<lambda>c. invoke env (k c)) st = (r, st1)"
    using c i by (simp add: self_ssh_def on_client_def)
  show ?thesis
  proof (cases r)
    case (Inl e)
    with s t1 show ?thesis by (simp add: bind_def)
  next
    case (Inr x)
    from f [of x] obtain ds where "trace (snd (f x st1)) = trace st1 @ ds"
      unfolding calls_only_def by blast
    with s t1 Inr show ?thesis by (simp add: bind_def)
  qed
qed

lemma upload_first_call:
  "ssh st = Client c \<Longrightarrow>
   \<exists>cs. trace (snd (upload env l r cb cf st)) = trace st @ Open_sftp c # cs"
  unfolding upload_def
  by (rule first_call, assumption) (auto intro!: calls_only_intros)

lemma write_data_first_call:
  "ssh st = Client c \<Longrightarrow>
   \<exists>cs. trace (snd (write_data env d r m b st)) = trace st @ Open_sftp c # cs"
  unfolding write_data_def
  by (rule first_call, assumption) (auto intro!: calls_only_intros)

lemma download_first_call:
  "ssh st = Client c \<Longrightarrow>
   \<exists>cs. trace (snd (download env r l cb cf st)) = trace st @ Open_sftp c # cs"
  unfolding download_def
  by (rule first_call, assumption) (auto intro!: calls_only_intros)

lemma read_first_call:
  "ssh st = Client c \<Longrightarrow>
   \<exists>cs. trace (snd (read env r m b st)) = trace st @ Open_sftp c # cs"
  unfolding read_def
  by (rule first_call, assumption) (auto intro!: calls_only_intros)

lemma exec_command_first_call:
  "ssh st = Client c \<Longrightarrow>
   \<exists>cs. trace (snd (exec_command env cmd st)) = trace st @ Exec_command c cmd # cs"
  unfolding exec_command_def
  by (rule first_call, assumption) (auto intro!: calls_only_intros)

lemma exec_commands_first_call:
  "ssh st = Client c \<Longrightarrow>
   \<exists>cs. trace (snd (exec_commands env (first # rest) st)) = trace st @ Exec_command c first # cs"
  unfolding exec_commands_def index0_def
  by (simp add: bind_return) ((rule first_call, assumption), (auto intro!: calls_only_intros))

lemma exit_state:
  assumes "ssh st = Client c"
  shows "ssh (snd (exit env st)) = Client c \<and> trace (snd (exit env st)) = trace st @ [Close c]"
  using assms by (simp add: exit_def close_def run_defs split: prod.split sum.split)

lemma first_call_raises:
  assumes "ssh st = Client c" and "lib env (k c) (world st) = (Inl e, w1)"
  shows "bind (self_ssh (\<lambda>c. invoke env (k c))) f st =
           (Inl e, st\<lparr>trace := trace st @ [k c], world := w1\<rparr>)"
  using assms by (simp add: run_defs)

text \<open>
  Claim C1. When the library creates the client, loads the host keys, sets the policy
  and connects without an exception, the \<open>with\<close> statement around any block makes
  exactly these calls: the four calls of \<open>__enter__\<close> (one \<open>connect\<close>), then the calls
  of the block, none of which connects or closes, then one \<open>close\<close> of the same client
  as the last call. The block may end normally or with an exception (its own \<open>raise\<close>
  or one of an operation): the \<open>close\<close> is made all the same, after the \<open>connect\<close> and
  after every call of the block.
\<close>

theorem scope_opens_once_and_closes_once:
  assumes "lib env SSHClient_new w = (Inr (Client c), w1)"
    and "lib env (Load_system_host_keys c) w1 = (Inr x, w2)"
    and "lib env (Set_missing_host_key_policy c AutoAddPolicy) w2 = (Inr y, w3)"
    and "lib env (Connect c h u p n) w3 = (Inr z, w4)"
  shows "\<exists>cs. trace (snd (run_block env block (snd (enter env (SSHClient_init h u p n w))))) =
                [SSHClient_new, Load_system_host_keys c,
                 Set_missing_host_key_policy c AutoAddPolicy, Connect c h u p n] @ cs
           \<and> trace (snd (with_SSHClient env h u p n block w)) =
                [SSHClient_new, Load_system_host_keys c,
                 Set_missing_host_key_policy c AutoAddPolicy, Connect c h u p n] @ cs @ [Close c]
           \<and> list_all (\<lambda>x. \<not> is_connect x \<and> \<not> is_close x) cs
           \<and> length (filter is_connect (trace (snd (with_SSHClient env h u p n block w)))) = 1
           \<and> length (filter is_close (trace (snd (with_SSHClient env h u p n block w)))) = 1"
proof -
  let ?st0 = "SSHClient_init h u p n w"
  let ?pre = "[SSHClient_new, Load_system_host_keys c,
               Set_missing_host_key_policy c AutoAddPolicy, Connect c h u p n]"
  obtain st1 where e: "enter env ?st0 = (Inr (), st1)"
    and st1: "ssh st1 = Client c" "trace st1 = ?pre"
    using enter_succeeds [OF assms] by simp
  obtain r st2 where b: "run_block env block st1 = (r, st2)"
    by (cases "run_block env block st1")
  from run_block_calls [of env block] b obtain cs
    where st2: "ssh st2 = ssh st1" "trace st2 = trace st1 @ cs"
      and cs: "list_all (\<lambda>x. \<not> lifecycle x) cs"
    unfolding calls_only_def by (metis snd_conv)
  have "ssh st2 = Client c"
    using st2 st1 by simp
  then have x: "trace (snd (exit env st2)) = trace st2 @ [Close c]"
    by (rule exit_closes)
  have w: "snd (with_SSHClient env h u p n block w) = snd (exit env st2)"
    using e b by (simp add: with_SSHClient_def bind_def try_finally_def split: prod.split sum.split)
  have cs': "list_all (\<lambda>x. \<not> is_connect x \<and> \<not> is_close x) cs"
    using cs by (simp add: lifecycle_def)
  then have f: "filter is_connect cs = []" "filter is_close cs = []"
    by (simp_all add: list_all_iff)
  have t: "trace (snd (with_SSHClient env h u p n block w)) = ?pre @ cs @ [Close c]"
    using w x st2 st1 by simp
  have "trace (snd (run_block env block (snd (enter env ?st0)))) = ?pre @ cs"
    using e b st2 st1 by simp
  with t cs' f show ?thesis by simp
qed

theorem scope_opens_once_and_closes_once_witness:
  "length (filter is_connect (trace (snd (with_SSHClient (fake Python2) ''example.org'' ''alice''
      ''secret'' 22 [ExecCommand ''echo hi'', Raise IOError, ExecCommand ''echo ho''] demo_remote)))) = 1
   \<and> length (filter is_close (trace (snd (with_SSHClient (fake Python2) ''example.org'' ''alice''
      ''secret'' 22 [ExecCommand ''echo hi'', Raise IOError, ExecCommand ''echo ho''] demo_remote)))) = 1
   \<and> last (trace (snd (with_SSHClient (fake Python2) ''example.org'' ''alice''
      ''secret'' 22 [ExecCommand ''echo hi'', Raise IOError, ExecCommand ''echo ho''] demo_remote))) = Close 0"
proof -
  let ?env = "fake Python2"
  let ?w1 = "demo_remote\<lparr>handles := 1\<rparr>"
  let ?w4 = "demo_remote\<lparr>handles := 1, connected := {0}\<rparr>"
  have h1: "lib ?env SSHClient_new demo_remote = (Inr (Client 0), ?w1)"
    by (simp add: lib_fake demo_remote_def)
  have h2: "lib ?env (Load_system_host_keys 0) ?w1 = (Inr PyNone, ?w1)"
    by (simp add: lib_fake)
  have h3: "lib ?env (Set_missing_host_key_policy 0 AutoAddPolicy) ?w1 = (Inr PyNone, ?w1)"
    by (simp add: lib_fake)
  have h4: "lib ?env (Connect 0 ''example.org'' ''alice'' ''secret'' 22) ?w1 = (Inr PyNone, ?w4)"
    by (simp add: lib_fake demo_remote_def)
  from scope_opens_once_and_closes_once [OF h1 h2 h3 h4,
      of "[ExecCommand ''echo hi'', Raise IOError, ExecCommand ''echo ho'']"]
  show ?thesis by auto
qed

text \<open>
  Claim C8. When the library's \<open>connect\<close> raises during \<open>__enter__\<close>, the \<open>with\<close>
  statement ends with that very exception: \<open>connect\<close> has been called once and not
  again, the block has not run, \<open>close\<close> has not been called, and the world is as the
  failed \<open>connect\<close> left it.
\<close>

theorem connect_failure_propagates:
  assumes "lib env SSHClient_new w = (Inr (Client c), w1)"
    and "lib env (Load_system_host_keys c) w1 = (Inr x, w2)"
    and "lib env (Set_missing_host_key_policy c AutoAddPolicy) w2 = (Inr y, w3)"
    and "lib env (Connect c h u p n) w3 = (Inl e, w4)"
  shows "with_SSHClient env h u p n block w =
           (Inl e,
            \<lparr>login_info = \<lparr>host = h, username = u, password = p, port = n\<rparr>,
             ssh = Client c,
             trace = [SSHClient_new, Load_system_host_keys c,
                      Set_missing_host_key_policy c AutoAddPolicy, Connect c h u p n],
             world = w4\<rparr>)"
  using enter_succeeds [OF assms] by (simp add: with_SSHClient_def bind_def)

theorem connect_failure_propagates_witness:
  "fst (with_SSHClient (fake Python2) ''example.org'' ''alice'' ''wrong'' 22
          [ExecCommand ''ls -l''] demo_remote) = Inl AuthenticationException
   \<and> trace (snd (with_SSHClient (fake Python2) ''example.org'' ''alice'' ''wrong'' 22
          [ExecCommand ''ls -l''] demo_remote)) =
       [SSHClient_new, Load_system_host_keys 0, Set_missing_host_key_policy 0 AutoAddPolicy,
        Connect 0 ''example.org'' ''alice'' ''wrong'' 22]
   \<and> connected (world (snd (with_SSHClient (fake Python2) ''example.org'' ''alice'' ''wrong'' 22
          [ExecCommand ''ls -l''] demo_remote))) = {}"
proof -
  let ?env = "fake Python2"
  let ?w1 = "demo_remote\<lparr>handles := 1\<rparr>"
  have h1: "lib ?env SSHClient_new demo_remote = (Inr (Client 0), ?w1)"
    by (simp add: lib_fake demo_remote_def)
  have h2: "lib ?env (Load_system_host_keys 0) ?w1 = (Inr PyNone, ?w1)"
    by (simp add: lib_fake)
  have h3: "lib ?env (Set_missing_host_key_policy 0 AutoAddPolicy) ?w1 = (Inr PyNone, ?w1)"
    by (simp add: lib_fake)
  have h4: "lib ?env (Connect 0 ''example.org'' ''alice'' ''wrong'' 22) ?w1 =
              (Inl AuthenticationException, ?w1)"
    by (simp add: lib_fake demo_remote_def)
  show ?thesis
    using connect_failure_propagates [OF h1 h2 h3 h4, of "[ExecCommand ''ls -l'']"]
    by (simp add: demo_remote_def)
qed

text \<open>
  Claim C6, as stated, does not hold: an operation called before the scope is entered
  raises \<open>AttributeError\<close> (the attribute \<open>ssh\<close> is \<open>None\<close>), which is not a
  \<open>UsageError\<close>; the module defines no such error and has no check of its own.
\<close>

theorem operations_outside_scope_counterexample:
  "fst (exec_command (fake Python2) ''ls -l''
          (SSHClient_init ''example.org'' ''alice'' ''secret'' 22 demo_remote)) = Inl AttributeError
   \<and> fst (exec_command (fake Python2) ''ls -l''
          (SSHClient_init ''example.org'' ''alice'' ''secret'' 22 demo_remote)) \<noteq> Inl UsageError"
  by (simp add: exec_command_def SSHClient_init_def run_defs)

text \<open>
  Claim C6, amended. Before the scope is entered (\<open>self.ssh\<close> is \<open>None\<close>) each of
  the six operations raises \<open>AttributeError\<close> and makes no library call: the state is
  as before. Leaving the scope does not reset \<open>self.ssh\<close>: afterwards it still holds
  the client object, now closed, and the wrapper checks nothing itself. Each operation
  called then goes to the library with that client (\<open>open_sftp\<close> for the transfers,
  \<open>exec_command\<close> for the commands), and when the library answers that call with an
  exception, the operation ends with that very exception, having made that one call.
\<close>

theorem operations_outside_scope:
  "(ssh st = PyNone \<longrightarrow>
      upload env local_path remote_path cb confirm st = (Inl AttributeError, st)
    \<and> write_data env d remote_path wmode b st = (Inl AttributeError, st)
    \<and> download env remote_path local cb confirm st = (Inl AttributeError, st)
    \<and> read env remote_path rmode b st = (Inl AttributeError, st)
    \<and> exec_command env command st = (Inl AttributeError, st)
    \<and> exec_commands env commands st = (Inl AttributeError, st))
   \<and> (ssh st = Client c \<longrightarrow>
      ssh (snd (exit env st)) = Client c
    \<and> (\<exists>cs. trace (snd (upload env local_path remote_path cb confirm (snd (exit env st)))) =
           trace st @ Close c # Open_sftp c # cs)
    \<and> (\<exists>cs. trace (snd (write_data env d remote_path wmode b (snd (exit env st)))) =
           trace st @ Close c # Open_sftp c # cs)
    \<and> (\<exists>cs. trace (snd (download env remote_path local cb confirm (snd (exit env st)))) =
           trace st @ Close c # Open_sftp c # cs)
    \<and> (\<exists>cs. trace (snd (read env remote_path rmode b (snd (exit env st)))) =
           trace st @ Close c # Open_sftp c # cs)
    \<and> (\<exists>cs. trace (snd (exec_command env command (snd (exit env st)))) =
           trace st @ Close c # Exec_command c command # cs)
    \<and> (\<exists>cs. trace (snd (exec_commands env (first # rest) (snd (exit env st)))) =
           trace st @ Close c # Exec_command c first # cs)
    \<and> (lib env (Open_sftp c) (world (snd (exit env st))) = (Inl e, w1) \<longrightarrow>
          upload env local_path remote_path cb confirm (snd (exit env st)) =
            (Inl e, (snd (exit env st))\<lparr>trace := trace st @ [Close c, Open_sftp c], world := w1\<rparr>)
        \<and> write_data env d remote_path wmode b (snd (exit env st)) =
            (Inl e, (snd (exit env st))\<lparr>trace := trace st @ [Close c, Open_sftp c], world := w1\<rparr>)
        \<and> download env remote_path local cb confirm (snd (exit env st)) =
            (Inl e, (snd (exit env st))\<lparr>trace := trace st @ [Close c, Open_sftp c], world := w1\<rparr>)
        \<and> read env remote_path rmode b (snd (exit env st)) =
            (Inl e, (snd (exit env st))\<lparr>trace := trace st @ [Close c, Open_sftp c], world := w1\<rparr>))
    \<and> (lib env (Exec_command c command) (world (snd (exit env st))) = (Inl e2, w2) \<longrightarrow>
          exec_command env command (snd (exit env st)) =
            (Inl e2, (snd (exit env st))\<lparr>trace := trace st @ [Close c, Exec_command c command],
                                        world := w2\<rparr>))
    \<and> (lib env (Exec_command c first) (world (snd (exit env st))) = (Inl e3, w3) \<longrightarrow>
          exec_commands env (first # rest) (snd (exit env st)) =
            (Inl e3, (snd (exit env st))\<lparr>trace := trace st @ [Close c, Exec_command c first],
                                        world := w3\<rparr>)))"
proof (intro conjI impI)
  assume c: "ssh st = Client c"
  let ?st = "snd (exit env st)"
  from exit_state [OF c] have s: "ssh ?st = Client c" and t: "trace ?st = trace st @ [Close c]"
    by simp_all
  show "ssh ?st = Client c" by (rule s)
  show "\<exists>cs. trace (snd (upload env local_path remote_path cb confirm ?st)) =
           trace st @ Close c # Open_sftp c # cs"
    using upload_first_call [OF s] t by simp
  show "\<exists>cs. trace (snd (write_data env d remote_path wmode b ?st)) =
           trace st @ Close c # Open_sftp c # cs"
    using write_data_first_call [OF s] t by simp
  show "\<exists>cs. trace (snd (download env remote_path local cb confirm ?st)) =
           trace st @ Close c # Open_sftp c # cs"
    using download_first_call [OF s] t by simp
  show "\<exists>cs. trace (snd (read env remote_path rmode b ?st)) =
           trace st @ Close c # Open_sftp c # cs"
    using read_first_call [OF s] t by simp
  show "\<exists>cs. trace (snd (exec_command env command ?st)) =
           trace st @ Close c # Exec_command c command # cs"
    using exec_command_first_call [OF s] t by simp
  show "\<exists>cs. trace (snd (exec_commands env (first # rest) ?st)) =
           trace st @ Close c # Exec_command c first # cs"
    using exec_commands_first_call [OF s] t by simp
  {
    assume o: "lib env (Open_sftp c) (world ?st) = (Inl e, w1)"
    show "upload env local_path remote_path cb confirm ?st =
            (Inl e, ?st\<lparr>trace := trace st @ [Close c, Open_sftp c], world := w1\<rparr>)"
      unfolding upload_def using first_call_raises [where k = Open_sftp, OF s o] t by simp
    show "write_data env d remote_path wmode b ?st =
            (Inl e, ?st\<lparr>trace := trace st @ [Close c, Open_sftp c], world := w1\<rparr>)"
      unfolding write_data_def using first_call_raises [where k = Open_sftp, OF s o] t by simp
    show "download env remote_path local cb confirm ?st =
            (Inl e, ?st\<lparr>trace := trace st @ [Close c, Open_sftp c], world := w1\<rparr>)"
      unfolding download_def using first_call_raises [where k = Open_sftp, OF s o] t by simp
    show "read env remote_path rmode b ?st =
            (Inl e, ?st\<lparr>trace := trace st @ [Close c, Open_sftp c], world := w1\<rparr>)"
      unfolding read_def using first_call_raises [where k = Open_sftp, OF s o] t by simp
  }
  {
    assume x: "lib env (Exec_command c command) (world ?st) = (Inl e2, w2)"
    show "exec_command env command ?st =
            (Inl e2, ?st\<lparr>trace := trace st @ [Close c, Exec_command c command], world := w2\<rparr>)"
      unfolding exec_command_def
      using first_call_raises [where k = "\<lambda>c. Exec_command c command", OF s x] t by simp
  }
  {
    assume x: "lib env (Exec_command c first) (world ?st) = (Inl e3, w3)"
    show "exec_commands env (first # rest) ?st =
            (Inl e3, ?st\<lparr>trace := trace st @ [Close c, Exec_command c first], world := w3\<rparr>)"
      unfolding exec_commands_def index0_def
      using first_call_raises [where k = "\<lambda>c. Exec_command c first", OF s x] t
      by (simp add: bind_return)
  }
qed (simp_all add: upload_def write_data_def download_def read_def exec_command_def
          exec_commands_def run_defs)


theorem operations_outside_scope_witness:
  "upload (fake Python2) (LocalPath ''notes.txt'') ''/tmp/n'' None True
     (SSHClient_init ''example.org'' ''alice'' ''secret'' 22 demo_remote)
     = (Inl AttributeError, SSHClient_init ''example.org'' ''alice'' ''secret'' 22 demo_remote)
   \<and> exec_commands (fake Python2) [''sh'', ''echo one'']
     (SSHClient_init ''example.org'' ''alice'' ''secret'' 22 demo_remote)
     = (Inl AttributeError, SSHClient_init ''example.org'' ''alice'' ''secret'' 22 demo_remote)
   \<and> ssh (snd (exit (fake Python2) demo_session)) = Client 0
   \<and> (\<exists>cs. trace (snd (exec_command (fake Python2) ''ls''
                 (snd (exit (fake Python2) demo_session)))) =
          trace demo_session @ Close 0 # Exec_command 0 ''ls'' # cs)
   \<and> upload (fake Python2) (LocalPath ''notes.txt'') ''/tmp/n'' None True
       (snd (exit (fake Python2) demo_session)) =
       (Inl SSHException,
        (snd (exit (fake Python2) demo_session))
          \<lparr>trace := trace demo_session @ [Close 0, Open_sftp 0],
           world := world (snd (exit (fake Python2) demo_session))\<rparr>)
   \<and> read (fake Python2) ''/tmp/n'' ''r'' (- 1) (snd (exit (fake Python2) demo_session)) =
       (Inl SSHException,
        (snd (exit (fake Python2) demo_session))
          \<lparr>trace := trace demo_session @ [Close 0, Open_sftp 0],
           world := world (snd (exit (fake Python2) demo_session))\<rparr>)
   \<and> exec_command (fake Python2) ''ls'' (snd (exit (fake Python2) demo_session)) =
       (Inl SSHException,
        (snd (exit (fake Python2) demo_session))
          \<lparr>trace := trace demo_session @ [Close 0, Exec_command 0 ''ls''],
           world := world (snd (exit (fake Python2) demo_session))\<rparr>)
   \<and> exec_commands (fake Python2) [''sh'', ''echo one''] (snd (exit (fake Python2) demo_session)) =
       (Inl SSHException,
        (snd (exit (fake Python2) demo_session))
          \<lparr>trace := trace demo_session @ [Close 0, Exec_command 0 ''sh''],
           world := world (snd (exit (fake Python2) demo_session))\<rparr>)"
proof -
  let ?env = "fake Python2"
  let ?init = "SSHClient_init ''example.org'' ''alice'' ''secret'' 22 demo_remote"
  let ?st = "snd (exit ?env demo_session)"
  have h: "ssh ?init = PyNone"
    by (simp add: SSHClient_init_def)
  have w: "world ?st = demo_remote\<lparr>handles := 1, connected := {}\<rparr>"
    by (simp add: exit_def close_def run_defs lib_fake demo_session_eq)
  have o: "lib ?env (Open_sftp 0) (world ?st) = (Inl SSHException, world ?st)"
    by (simp add: w lib_fake)
  have x1: "lib ?env (Exec_command 0 ''ls'') (world ?st) = (Inl SSHException, world ?st)"
    by (simp add: w lib_fake)
  have x2: "lib ?env (Exec_command 0 ''sh'') (world ?st) = (Inl SSHException, world ?st)"
    by (simp add: w lib_fake)
  from operations_outside_scope [where st = ?init and env = ?env
      and local_path = "LocalPath ''notes.txt''" and remote_path = "''/tmp/n''" and cb = None
      and confirm = True and commands = "[''sh'', ''echo one'']"] h
  have a: "upload ?env (LocalPath ''notes.txt'') ''/tmp/n'' None True ?init = (Inl AttributeError, ?init)
         \<and> exec_commands ?env [''sh'', ''echo one''] ?init = (Inl AttributeError, ?init)"
    by blast
  from operations_outside_scope [where st = demo_session and env = ?env and c = 0
      and local_path = "LocalPath ''notes.txt''" and remote_path = "''/tmp/n''" and cb = None
      and confirm = True and rmode = "''r''" and b = "- 1" and command = "''ls''"
      and first = "''sh''" and rest = "[''echo one'']"
      and e = SSHException and ?w1.0 = "world ?st"
      and ?e2.0 = SSHException and ?w2.0 = "world ?st"
      and ?e3.0 = SSHException and ?w3.0 = "world ?st"]
    demo_session_ssh o x1 x2
  have b: "ssh ?st = Client 0
     \<and> (\<exists>cs. trace (snd (exec_command ?env ''ls'' ?st)) =
            trace demo_session @ Close 0 # Exec_command 0 ''ls'' # cs)
     \<and> upload ?env (LocalPath ''notes.txt'') ''/tmp/n'' None True ?st =
         (Inl SSHException,
          ?st\<lparr>trace := trace demo_session @ [Close 0, Open_sftp 0], world := world ?st\<rparr>)
     \<and> read ?env ''/tmp/n'' ''r'' (- 1) ?st =
         (Inl SSHException,
          ?st\<lparr>trace := trace demo_session @ [Close 0, Open_sftp 0], world := world ?st\<rparr>)
     \<and> exec_command ?env ''ls'' ?st =
         (Inl SSHException,
          ?st\<lparr>trace := trace demo_session @ [Close 0, Exec_command 0 ''ls''], world := world ?st\<rparr>)
     \<and> exec_commands ?env [''sh'', ''echo one''] ?st =
         (Inl SSHException,
          ?st\<lparr>trace := trace demo_session @ [Close 0, Exec_command 0 ''sh''], world := world ?st\<rparr>)"
    by blast
  from a b show ?thesis by blast
qed

subsection \<open>Command execution\<close>

text \<open>
  Claim C3. On an open session, when the library's \<open>exec_command\<close> answers with the
  triple of the channel's input, output and error files, \<open>exec_command\<close> of the wrapper
  reads the output file and then the error file, writes nothing to the input file, and
  returns the pair of what the two reads delivered: although the variable that holds
  the second file is called \<open>stdin\<close>, the first component of the result is the
  command's standard output.
\<close>

theorem exec_command_returns_stdout_stderr:
  assumes "ssh st = Client c"
    and "lib env (Exec_command c command) (world st) =
           (Inr (Triple i (ChannelFile (Stdout ch)) (ChannelFile (Stderr ch))), w1)"
    and "lib env (Stream_read (Stdout ch)) w1 = (Inr out, w2)"
    and "lib env (Stream_read (Stderr ch)) w2 = (Inr err, w3)"
  shows "exec_command env command st =
           (Inr (out, err),
            st\<lparr>trace := trace st @ [Exec_command c command, Stream_read (Stdout ch), Stream_read (Stderr ch)],
               world := w3\<rparr>)"
  using assms by (simp add: exec_command_def run_defs)

theorem exec_command_returns_stdout_stderr_witness:
  "fst (exec_command (fake Python2) ''echo hello'' demo_session)
     = Inr (Bytes (''hello'' @ newline), Bytes [])
   \<and> trace (snd (exec_command (fake Python2) ''echo hello'' demo_session))
     = trace demo_session @ [Exec_command 0 ''echo hello'', Stream_read (Stdout 1), Stream_read (Stderr 1)]"
proof -
  let ?w1 = "snd (transport (Exec_command 0 ''echo hello'') (world demo_session))"
  have h2: "lib (fake Python2) (Exec_command 0 ''echo hello'') (world demo_session) =
           (Inr (Triple (ChannelFile (Stdin 1)) (ChannelFile (Stdout 1)) (ChannelFile (Stderr 1))), ?w1)"
    by (simp add: lib_fake demo_session_world)
  have h3: "lib (fake Python2) (Stream_read (Stdout 1)) ?w1 = (Inr (Bytes (''hello'' @ newline)), ?w1)"
    by (simp add: lib_fake demo_session_world demo_remote_def demo_shell_def run_line_def)
  have h4: "lib (fake Python2) (Stream_read (Stderr 1)) ?w1 = (Inr (Bytes []), ?w1)"
    by (simp add: lib_fake demo_session_world demo_remote_def demo_shell_def run_line_def)
  show ?thesis
    using exec_command_returns_stdout_stderr [OF demo_session_ssh h2 h3 h4] by simp
qed

text \<open>
  Claim C2, as stated, does not hold: after the \<open>exit\<close> line \<open>exec_commands\<close> calls
  \<open>flush\<close> on the input stream. It never closes that stream, so end-of-input is not
  signalled; the remote shell ends because it reads \<open>exit\<close>.
\<close>

theorem exec_commands_end_of_input_counterexample:
  "trace (snd (exec_commands (fake Python2) [''sh'', ''echo one'', ''echo two''] demo_session)) =
     trace demo_session @
     [Exec_command 0 ''sh'',
      Stream_write (Stdin 1) (''echo one'' @ newline @ ''echo two'' @ newline),
      Stream_write (Stdin 1) (''exit'' @ newline),
      Stream_flush (Stdin 1),
      Stream_read (Stdout 1),
      Stream_read (Stderr 1)]
   \<and> \<not> list_ex is_end_of_input
         (trace (snd (exec_commands (fake Python2) [''sh'', ''echo one'', ''echo two''] demo_session)))"
  by (simp add: exec_commands_def run_defs lib_fake demo_session_eq demo_remote_def)

text \<open>
  Claim C2, amended. For a non-empty list of commands, on an open session whose
  library calls succeed, \<open>exec_commands\<close> opens one channel with the first command,
  writes the remaining commands to the channel's input stream in one call, joined by
  newlines and followed by a newline (one line per remaining command; a single empty
  line when there is none), writes the line \<open>exit\<close>, flushes the stream, and returns
  the pair of what reading the output stream and then the error stream delivered.
\<close>

theorem exec_commands_flushes:
  assumes "ssh st = Client c"
    and "lib env (Exec_command c first) (world st) =
           (Inr (Triple (ChannelFile (Stdin ch)) (ChannelFile (Stdout ch)) (ChannelFile (Stderr ch))), w1)"
    and "lib env (Stream_write (Stdin ch) (join newline rest @ newline)) w1 = (Inr a, w2)"
    and "lib env (Stream_write (Stdin ch) (''exit'' @ newline)) w2 = (Inr b, w3)"
    and "lib env (Stream_flush (Stdin ch)) w3 = (Inr d, w4)"
    and "lib env (Stream_read (Stdout ch)) w4 = (Inr out, w5)"
    and "lib env (Stream_read (Stderr ch)) w5 = (Inr err, w6)"
  shows "exec_commands env (first # rest) st =
           (Inr (out, err),
            st\<lparr>trace := trace st @
                   [Exec_command c first,
                    Stream_write (Stdin ch) (join newline rest @ newline),
                    Stream_write (Stdin ch) (''exit'' @ newline),
                    Stream_flush (Stdin ch),
                    Stream_read (Stdout ch),
                    Stream_read (Stderr ch)],
               world := w6\<rparr>)
       \<and> join newline rest @ newline =
           (if rest = [] then newline else concat (map (\<lambda>l. l @ newline) rest))"
proof
  show "exec_commands env (first # rest) st =
           (Inr (out, err),
            st\<lparr>trace := trace st @
                   [Exec_command c first,
                    Stream_write (Stdin ch) (join newline rest @ newline),
                    Stream_write (Stdin ch) (''exit'' @ newline),
                    Stream_flush (Stdin ch),
                    Stream_read (Stdout ch),
                    Stream_read (Stderr ch)],
               world := w6\<rparr>)"
    using assms by (simp add: exec_commands_def run_defs)
  show "join newline rest @ newline =
           (if rest = [] then newline else concat (map (\<lambda>l. l @ newline) rest))"
    by (induction newline rest rule: join.induct) simp_all
qed

theorem exec_commands_flushes_witness:
  "fst (exec_commands (fake Python2) [''sh'', ''echo one'', ''echo two''] demo_session) =
     Inr (Bytes (''one'' @ newline @ ''two'' @ newline), Bytes [])
   \<and> trace (snd (exec_commands (fake Python2) [''sh'', ''echo one'', ''echo two''] demo_session)) =
     trace demo_session @
     [Exec_command 0 ''sh'',
      Stream_write (Stdin 1) (''echo one'' @ newline @ ''echo two'' @ newline),
      Stream_write (Stdin 1) (''exit'' @ newline),
      Stream_flush (Stdin 1),
      Stream_read (Stdout 1),
      Stream_read (Stderr 1)]"
proof -
  let ?env = "fake Python2"
  let ?rest = "[''echo one'', ''echo two'']"
  let ?w1 = "snd (transport (Exec_command 0 ''sh'') (world demo_session))"
  let ?w2 = "snd (transport (Stream_write (Stdin 1) (join newline ?rest @ newline)) ?w1)"
  let ?w3 = "snd (transport (Stream_write (Stdin 1) (''exit'' @ newline)) ?w2)"
  have h2: "lib ?env (Exec_command 0 ''sh'') (world demo_session) =
      (Inr (Triple (ChannelFile (Stdin 1)) (ChannelFile (Stdout 1)) (ChannelFile (Stderr 1))), ?w1)"
    by (simp add: lib_fake demo_session_world)
  have h3: "lib ?env (Stream_write (Stdin 1) (join newline ?rest @ newline)) ?w1 = (Inr PyNone, ?w2)"
    by (simp add: lib_fake demo_session_world)
  have h4: "lib ?env (Stream_write (Stdin 1) (''exit'' @ newline)) ?w2 = (Inr PyNone, ?w3)"
    by (simp add: lib_fake demo_session_world)
  have h5: "lib ?env (Stream_flush (Stdin 1)) ?w3 = (Inr PyNone, ?w3)"
    by (simp add: lib_fake)
  have h6: "lib ?env (Stream_read (Stdout 1)) ?w3 =
              (Inr (Bytes (''one'' @ newline @ ''two'' @ newline)), ?w3)"
    by (simp add: lib_fake demo_session_world demo_remote_def demo_shell_def run_line_def newline_def)
  have h7: "lib ?env (Stream_read (Stderr 1)) ?w3 = (Inr (Bytes []), ?w3)"
    by (simp add: lib_fake demo_session_world demo_remote_def demo_shell_def run_line_def newline_def)
  from exec_commands_flushes [OF demo_session_ssh h2 h3 h4 h5 h6 h7]
  show ?thesis by simp
qed

text \<open>
  Claim C10. \<open>exec_commands\<close> with an empty list of commands always raises and leaves
  the state as it was: no call into the library is made, so no channel is opened and
  nothing happens on the remote side. On an open session the exception is
  \<open>IndexError\<close>, from \<open>commands[0]\<close>.
\<close>

theorem exec_commands_empty:
  "(\<exists>e. exec_commands env [] st = (Inl e, st))
   \<and> (ssh st = Client c \<longrightarrow> exec_commands env [] st = (Inl IndexError, st))"
  by (cases "ssh st") (simp_all add: exec_commands_def run_defs)

theorem exec_commands_empty_witness:
  "exec_commands (fake Python2) [] demo_session = (Inl IndexError, demo_session)"
  using exec_commands_empty [of "fake Python2" demo_session 0] demo_session_ssh by simp

subsection \<open>File transfer\<close>

text \<open>
  Claim C4. Under Python 2, where the name \<open>file\<close> is bound, \<open>upload\<close> on an open
  session opens an SFTP channel of its own. For a file object it calls \<open>putfo\<close>, for a
  path it calls \<open>put\<close>; in both cases it passes the source, the remote path, the
  callback and the confirm flag on as they are, closes the channel, and returns what
  that call answered (the attributes, or its exception).
\<close>

theorem upload_dispatch:
  assumes "python env = Python2"
    and "ssh st = Client c"
    and "lib env (Open_sftp c) (world st) = (Inr (SFTPClient sf), w1)"
  shows "(lib env (Putfo sf (FileObject d) remote_path cb confirm) w1 = (r, w2) \<longrightarrow>
          lib env (Sftp_close sf) w2 = (Inr z, w3) \<longrightarrow>
          upload env (FileObject d) remote_path cb confirm st =
            (r, st\<lparr>trace := trace st @
                    [Open_sftp c, Putfo sf (FileObject d) remote_path cb confirm, Sftp_close sf],
                  world := w3\<rparr>))
       \<and> (lib env (Put sf (LocalPath p) remote_path cb confirm) w1 = (r', w2') \<longrightarrow>
          lib env (Sftp_close sf) w2' = (Inr z', w3') \<longrightarrow>
          upload env (LocalPath p) remote_path cb confirm st =
            (r', st\<lparr>trace := trace st @
                     [Open_sftp c, Put sf (LocalPath p) remote_path cb confirm, Sftp_close sf],
                   world := w3'\<rparr>))"
  using assms by (simp add: upload_def run_defs)

theorem upload_dispatch_witness:
  "upload (fake Python2) (FileObject ''xyz'') ''/tmp/x'' (Some (Callback 7)) False demo_session =
     (Inr (SFTPAttributes None),
      demo_session\<lparr>trace := trace demo_session @
          [Open_sftp 0, Putfo 1 (FileObject ''xyz'') ''/tmp/x'' (Some (Callback 7)) False, Sftp_close 1],
        world := snd (transport (Sftp_close 1)
                   (snd (transport (Putfo 1 (FileObject ''xyz'') ''/tmp/x'' (Some (Callback 7)) False)
                      (snd (transport (Open_sftp 0) (world demo_session))))))\<rparr>)
   \<and> upload (fake Python2) (LocalPath ''notes.txt'') ''/tmp/x'' (Some (Callback 7)) True demo_session =
     (Inr (SFTPAttributes (Some 3)),
      demo_session\<lparr>trace := trace demo_session @
          [Open_sftp 0, Put 1 (LocalPath ''notes.txt'') ''/tmp/x'' (Some (Callback 7)) True, Sftp_close 1],
        world := snd (transport (Sftp_close 1)
                   (snd (transport (Put 1 (LocalPath ''notes.txt'') ''/tmp/x'' (Some (Callback 7)) True)
                      (snd (transport (Open_sftp 0) (world demo_session))))))\<rparr>)"
proof -
  let ?env = "fake Python2"
  let ?w1 = "snd (transport (Open_sftp 0) (world demo_session))"
  let ?putfo = "Putfo 1 (FileObject ''xyz'') ''/tmp/x'' (Some (Callback 7)) False"
  let ?put = "Put 1 (LocalPath ''notes.txt'') ''/tmp/x'' (Some (Callback 7)) True"
  have h3: "lib ?env (Open_sftp 0) (world demo_session) = (Inr (SFTPClient 1), ?w1)"
    by (simp add: lib_fake demo_session_world)
  have a1: "lib ?env ?putfo ?w1 = (Inr (SFTPAttributes None), snd (transport ?putfo ?w1))"
    by (simp add: lib_fake demo_session_world store_def)
  have a2: "lib ?env (Sftp_close 1) (snd (transport ?putfo ?w1)) =
              (Inr PyNone, snd (transport (Sftp_close 1) (snd (transport ?putfo ?w1))))"
    by (simp add: lib_fake)
  have b1: "lib ?env ?put ?w1 = (Inr (SFTPAttributes (Some 3)), snd (transport ?put ?w1))"
    by (simp add: lib_fake demo_session_world store_def demo_remote_def)
  have b2: "lib ?env (Sftp_close 1) (snd (transport ?put ?w1)) =
              (Inr PyNone, snd (transport (Sftp_close 1) (snd (transport ?put ?w1))))"
    by (simp add: lib_fake)
  from upload_dispatch [OF python_fake demo_session_ssh h3, where d = "''xyz''"
      and remote_path = "''/tmp/x''" and cb = "Some (Callback 7)" and confirm = False] a1 a2
  have a: "upload ?env (FileObject ''xyz'') ''/tmp/x'' (Some (Callback 7)) False demo_session =
     (Inr (SFTPAttributes None),
      demo_session\<lparr>trace := trace demo_session @ [Open_sftp 0, ?putfo, Sftp_close 1],
        world := snd (transport (Sftp_close 1) (snd (transport ?putfo ?w1)))\<rparr>)"
    by blast
  from upload_dispatch [OF python_fake demo_session_ssh h3, where p = "''notes.txt''"
      and remote_path = "''/tmp/x''" and cb = "Some (Callback 7)" and confirm = True] b1 b2
  have b: "upload ?env (LocalPath ''notes.txt'') ''/tmp/x'' (Some (Callback 7)) True demo_session =
     (Inr (SFTPAttributes (Some 3)),
      demo_session\<lparr>trace := trace demo_session @ [Open_sftp 0, ?put, Sftp_close 1],
        world := snd (transport (Sftp_close 1) (snd (transport ?put ?w1)))\<rparr>)"
    by blast
  from a b show ?thesis by blast
qed

text \<open>
  Claim C9. Under Python 3, where the name \<open>file\<close> is unbound, every call of
  \<open>upload\<close> ends with an exception and never reaches \<open>put\<close> or \<open>putfo\<close>, whatever
  the local source is. On an open session whose SFTP channel opens and closes without
  an exception, the calls are just these two, and the exception is \<open>NameError\<close>.
\<close>

theorem upload_python3_name_error:
  assumes "python env = Python3"
  shows "(\<exists>e. fst (upload env local_path remote_path cb confirm st) = Inl e)
       \<and> calls_only (\<lambda>x. \<not> is_transfer x) (upload env local_path remote_path cb confirm)
       \<and> (ssh st = Client c \<longrightarrow>
          lib env (Open_sftp c) (world st) = (Inr (SFTPClient sf), w1) \<longrightarrow>
          lib env (Sftp_close sf) w1 = (Inr z, w2) \<longrightarrow>
          upload env local_path remote_path cb confirm st =
            (Inl NameError, st\<lparr>trace := trace st @ [Open_sftp c, Sftp_close sf], world := w2\<rparr>))"
proof (intro conjI)
  show "\<exists>e. fst (upload env local_path remote_path cb confirm st) = Inl e"
    using assms
    by (auto simp: upload_def run_defs split: pyobj.split sum.split prod.split)
  show "calls_only (\<lambda>x. \<not> is_transfer x) (upload env local_path remote_path cb confirm)"
    unfolding upload_def
    by (simp add: assms builtin_file_def bind_raise)
       (intro calls_only_intros; simp)
  show "ssh st = Client c \<longrightarrow>
          lib env (Open_sftp c) (world st) = (Inr (SFTPClient sf), w1) \<longrightarrow>
          lib env (Sftp_close sf) w1 = (Inr z, w2) \<longrightarrow>
          upload env local_path remote_path cb confirm st =
            (Inl NameError, st\<lparr>trace := trace st @ [Open_sftp c, Sftp_close sf], world := w2\<rparr>)"
    using assms by (simp add: upload_def run_defs)
qed

theorem upload_python3_name_error_witness:
  "upload (fake Python3) (LocalPath ''notes.txt'') ''/tmp/n'' None True demo_session =
     (Inl NameError,
      demo_session\<lparr>trace := trace demo_session @ [Open_sftp 0, Sftp_close 1],
                    world := demo_remote\<lparr>handles := 2, connected := {0}\<rparr>\<rparr>)"
proof -
  let ?w1 = "demo_remote\<lparr>handles := 2, connected := {0}, sftp_open := {1}\<rparr>"
  have h1: "lib (fake Python3) (Open_sftp 0) (world demo_session) = (Inr (SFTPClient 1), ?w1)"
    by (simp add: lib_fake demo_session_world demo_remote_def)
  have h2: "lib (fake Python3) (Sftp_close 1) ?w1 =
              (Inr PyNone, demo_remote\<lparr>handles := 2, connected := {0}\<rparr>)"
    by (simp add: lib_fake demo_remote_def)
  from upload_python3_name_error [OF python_fake, of "LocalPath ''notes.txt''" "''/tmp/n''" None True
      demo_session 0 1 ?w1 PyNone "demo_remote\<lparr>handles := 2, connected := {0}\<rparr>"]
    demo_session_ssh h1 h2
  show ?thesis by simp
qed

text \<open>
  Claim C5. The parameters \<open>callback\<close> and \<open>confirm\<close> of \<open>download\<close> have no effect:
  with the same remote and local path, two calls that differ in them are the same
  action, so from the same state they make the same library calls, return the same
  result and leave the same state.
\<close>

theorem download_ignores_callback_and_confirm:
  "download env remote_path local_path cb1 confirm1 = download env remote_path local_path cb2 confirm2"
  by (simp add: download_def)

text \<open>
  Claim C7. On a session connected to the in-memory server, writing \<open>data\<close> to a
  remote path and then reading that path back, with a matching pair of modes, returns
  exactly \<open>data\<close>.
\<close>

theorem write_then_read:
  assumes "lib env = transport"
    and "ssh st = Client c"
    and "c \<in> connected (world st)"
    and "matching_modes wmode rmode"
  shows "fst (bind (write_data env d path wmode b1) (\<lambda>_. read env path rmode b2) st) = Inr (Bytes d)"
  using assms
  by (simp add: write_data_def read_def run_defs matching_modes_def writable_def truncates_def)

theorem write_then_read_witness:
  "matching_modes default_write_mode default_read_mode \<and>
   fst (bind (write_data (fake Python2) ''data'' ''/tmp/f'' default_write_mode default_bufsize)
          (\<lambda>_. read (fake Python2) ''/tmp/f'' default_read_mode default_bufsize) demo_session)
     = Inr (Bytes ''data'')"
proof -
  have m: "matching_modes default_write_mode default_read_mode"
    by (simp add: matching_modes_def default_write_mode_def default_read_mode_def
          truncates_def readable_def)
  have c: "0 \<in> connected (world demo_session)"
    by (simp add: demo_session_world)
  show ?thesis
    using write_then_read [OF lib_fake demo_session_ssh c m] m by simp
qed

end
